theory Spec2Isabelle
  imports Complex_Main "HOL-Library.AList"
begin

section \<open>JavaScript values\<close>

text \<open>
  Request bodies and route parameters are dynamically typed (\<open>req.body\<close> is \<open>any\<close>), and the
  handlers test them with \<open>!v\<close>. The value universe is therefore modelled in full: every
  ECMAScript primitive and objects (arrays and functions are objects). A number is a finite
  rational (every double is one), negative zero, NaN or an infinity; only its zero test is used.
\<close>

datatype jsnumber = Finite rat | NegZero | NaN | PosInfinity | NegInfinity

datatype jsval =
    JUndefined
  | JNull
  | JBool bool
  | JNum jsnumber
  | JBigInt int
  | JStr string
  | JSymbol nat
  | JObj "(string \<times> jsval) list"

text \<open>\<open>ToBoolean\<close>: the falsy values are undefined, null, false, +0, -0, NaN, 0n and the empty string.\<close>

fun truthy :: "jsval \<Rightarrow> bool" where
  "truthy JUndefined = False"
| "truthy JNull = False"
| "truthy (JBool b) = b"
| "truthy (JNum (Finite q)) = (q \<noteq> 0)"
| "truthy (JNum NegZero) = False"
| "truthy (JNum NaN) = False"
| "truthy (JNum PosInfinity) = True"
| "truthy (JNum NegInfinity) = True"
| "truthy (JBigInt i) = (i \<noteq> 0)"
| "truthy (JStr s) = (s \<noteq> [])"
| "truthy (JSymbol n) = True"
| "truthy (JObj ps) = True"

datatype exn = TypeError | Thrown jsval

text \<open>
  \<open>const { k } = v\<close>: destructuring undefined or null throws a TypeError; an object yields the
  property or undefined; a primitive is wrapped, and neither its wrapper nor
  \<open>Object.prototype\<close> has a property of the names read here (\<open>workflowId\<close>,
  \<open>workflow\<close>).
\<close>

fun destructure :: "jsval \<Rightarrow> string \<Rightarrow> exn + jsval" where
  "destructure JUndefined k = Inl TypeError"
| "destructure JNull k = Inl TypeError"
| "destructure (JObj ps) k = Inr (case map_of ps k of None \<Rightarrow> JUndefined | Some v \<Rightarrow> v)"
| "destructure v k = Inr JUndefined"

fun has_field :: "jsval \<Rightarrow> string \<Rightarrow> bool" where
  "has_field (JObj ps) k = (map_of ps k \<noteq> None)"
| "has_field v k = False"

text \<open>
  An object literal with computed keys: properties are created in source order, and a repeated
  key overwrites the earlier value in place.
\<close>

definition object_literal :: "(string \<times> 'v) list \<Rightarrow> (string \<times> 'v) list" where
  "object_literal entries = foldl (\<lambda>obj (k, v). AList.update k v obj) [] entries"

section \<open>Strings\<close>

text \<open>
  Strings are lists of characters. The pattern searched for, \<open>/analyze\<close>, is ASCII, so its
  occurrences are the same whether a string is read as UTF-16 code units or as UTF-8 bytes.
\<close>

fun startsWith :: "string \<Rightarrow> string \<Rightarrow> bool" where
  "startsWith s [] = True"
| "startsWith [] (p # ps) = False"
| "startsWith (c # cs) (p # ps) = (c = p \<and> startsWith cs ps)"

text \<open>
  \<open>String.prototype.replace\<close> with a string pattern: the first occurrence of the pattern,
  scanning from the left, is replaced; a string without the pattern is returned unchanged.
\<close>

fun replace_str :: "string \<Rightarrow> string \<Rightarrow> string \<Rightarrow> string" where
  "replace_str [] pat rep = (if pat = [] then rep else [])"
| "replace_str (c # cs) pat rep =
     (if startsWith (c # cs) pat then rep @ drop (length pat) (c # cs)
      else c # replace_str cs pat rep)"

fun occurs :: "string \<Rightarrow> string \<Rightarrow> bool" where
  "occurs pat [] = (pat = [])"
| "occurs pat (c # cs) = (startsWith (c # cs) pat \<or> occurs pat cs)"

text \<open>
  The specification's wording for the base path, "stripping a trailing \<open>/analyze\<close> suffix if
  present", as a function of its own, to be compared with what the factory computes.
\<close>

definition endsWith :: "string \<Rightarrow> string \<Rightarrow> bool" where
  "endsWith s suf = startsWith (rev s) (rev suf)"

definition strip_trailing :: "string \<Rightarrow> string \<Rightarrow> string" where
  "strip_trailing s suf = (if endsWith s suf then take (length s - length suf) s else s)"

section \<open>The optimizer library (external collaborator)\<close>

text \<open>
  An Optimizer Handle is an object of the external library: it has an identity and carries the
  option it was constructed with.
\<close>

record AgentChainOptimizer =
  opt_ref :: nat
  opt_autoOptimize :: bool

record WorkflowExecution =
  exec_id :: string
  exec_data :: jsval

datatype call =
    CreateOptimizer bool
  | AnalyzeWorkflow AgentChainOptimizer jsval
  | OptimizeWorkflow AgentChainOptimizer jsval
  | GetAggregatedMetrics AgentChainOptimizer
  | GetWorkflowExecutions AgentChainOptimizer
  | AnalyzeExecutionCriticalPath AgentChainOptimizer WorkflowExecution

text \<open>
  The library's operations are parameters: each may throw, may change the library's own state
  \<open>'ls\<close>, and returns an opaque value. \<open>getTelemetryCollector()\<close> followed by a method
  of the collector is taken as one operation of the optimizer.
\<close>

record 'ls optimizer_library =
  analyzeWorkflow :: "AgentChainOptimizer \<Rightarrow> jsval \<Rightarrow> 'ls \<Rightarrow> (exn + jsval) \<times> 'ls"
  optimizeWorkflow :: "AgentChainOptimizer \<Rightarrow> jsval \<Rightarrow> 'ls \<Rightarrow> (exn + jsval) \<times> 'ls"
  getAggregatedMetrics :: "AgentChainOptimizer \<Rightarrow> 'ls \<Rightarrow> (exn + jsval) \<times> 'ls"
  getWorkflowExecutions :: "AgentChainOptimizer \<Rightarrow> 'ls \<Rightarrow> (exn + WorkflowExecution list) \<times> 'ls"
  analyzeExecutionCriticalPath ::
    "AgentChainOptimizer \<Rightarrow> WorkflowExecution \<Rightarrow> 'ls \<Rightarrow> (exn + jsval) \<times> 'ls"

text \<open>
  The world outside a request: the library's state, the number of optimizers constructed so
  far, and the trace of every call made into the library.
\<close>

record 'ls world =
  lib_state :: 'ls
  next_ref :: nat
  trace :: "call list"

text \<open>
  Modelled from the spec: the external library's constructor
  \<open>createOptimizer({autoOptimize: boolean}) -> OptimizerHandle\<close>, which is not part of this
  repository. Each call constructs a new handle, distinct from every handle constructed before.
\<close>

definition createOptimizer :: "bool \<Rightarrow> 'ls world \<Rightarrow> AgentChainOptimizer \<times> 'ls world" where
  "createOptimizer flag w =
     (\<lparr>opt_ref = next_ref w, opt_autoOptimize = flag\<rparr>,
      w\<lparr>next_ref := Suc (next_ref w), trace := trace w @ [CreateOptimizer flag]\<rparr>)"

definition call_analyzeWorkflow ::
  "'ls optimizer_library \<Rightarrow> AgentChainOptimizer \<Rightarrow> jsval \<Rightarrow> 'ls world \<Rightarrow> (exn + jsval) \<times> 'ls world" where
  "call_analyzeWorkflow lib optimizer workflowId w =
     (case analyzeWorkflow lib optimizer workflowId (lib_state w) of
        (r, s) \<Rightarrow> (r, w\<lparr>lib_state := s, trace := trace w @ [AnalyzeWorkflow optimizer workflowId]\<rparr>))"

definition call_optimizeWorkflow ::
  "'ls optimizer_library \<Rightarrow> AgentChainOptimizer \<Rightarrow> jsval \<Rightarrow> 'ls world \<Rightarrow> (exn + jsval) \<times> 'ls world" where
  "call_optimizeWorkflow lib optimizer workflow w =
     (case optimizeWorkflow lib optimizer workflow (lib_state w) of
        (r, s) \<Rightarrow> (r, w\<lparr>lib_state := s, trace := trace w @ [OptimizeWorkflow optimizer workflow]\<rparr>))"

definition call_getAggregatedMetrics ::
  "'ls optimizer_library \<Rightarrow> AgentChainOptimizer \<Rightarrow> 'ls world \<Rightarrow> (exn + jsval) \<times> 'ls world" where
  "call_getAggregatedMetrics lib optimizer w =
     (case getAggregatedMetrics lib optimizer (lib_state w) of
        (r, s) \<Rightarrow> (r, w\<lparr>lib_state := s, trace := trace w @ [GetAggregatedMetrics optimizer]\<rparr>))"

definition call_getWorkflowExecutions ::
  "'ls optimizer_library \<Rightarrow> AgentChainOptimizer \<Rightarrow> 'ls world
     \<Rightarrow> (exn + WorkflowExecution list) \<times> 'ls world" where
  "call_getWorkflowExecutions lib optimizer w =
     (case getWorkflowExecutions lib optimizer (lib_state w) of
        (r, s) \<Rightarrow> (r, w\<lparr>lib_state := s, trace := trace w @ [GetWorkflowExecutions optimizer]\<rparr>))"

definition call_analyzeExecutionCriticalPath ::
  "'ls optimizer_library \<Rightarrow> AgentChainOptimizer \<Rightarrow> WorkflowExecution \<Rightarrow> 'ls world
     \<Rightarrow> (exn + jsval) \<times> 'ls world" where
  "call_analyzeExecutionCriticalPath lib optimizer execution w =
     (case analyzeExecutionCriticalPath lib optimizer execution (lib_state w) of
        (r, s) \<Rightarrow>
          (r, w\<lparr>lib_state := s,
                trace := trace w @ [AnalyzeExecutionCriticalPath optimizer execution]\<rparr>))"

section \<open>Requests, responses and handlers\<close>

record PathsConfig =
  analyze :: "string option"
  optimize :: "string option"
  metrics :: "string option"
  criticalPath :: "string option"

record MiddlewareConfig =
  autoOptimize :: "bool option"
  paths :: "PathsConfig option"

record WorkflowRequest =
  body :: jsval
  params :: "(string \<times> jsval) list"
  workflowOptimizer :: "AgentChainOptimizer option"
  workflowAnalysis :: "jsval option"
  req_criticalPath :: "jsval option"

text \<open>
  A response starts with status code 200 and nothing sent; \<open>res.status(n)\<close> sets the code and
  \<open>res.json(v)\<close> sends \<open>v\<close> with the code current at that moment.
\<close>

record Response =
  statusCode :: nat
  jsonBody :: "jsval option"

record exchange =
  req :: WorkflowRequest
  res :: Response
  nextCalls :: nat

definition res_status :: "nat \<Rightarrow> exchange \<Rightarrow> exchange" where
  "res_status n x = x\<lparr>res := (res x)\<lparr>statusCode := n\<rparr>\<rparr>"

definition res_json :: "jsval \<Rightarrow> exchange \<Rightarrow> exchange" where
  "res_json v x = x\<lparr>res := (res x)\<lparr>jsonBody := Some v\<rparr>\<rparr>"

definition error_body :: "string \<Rightarrow> jsval" where
  "error_body msg = JObj [(''error'', JStr msg)]"

text \<open>
  A request handler runs on one exchange in the world; it returns normally (\<open>None\<close>) or
  throws, and leaves the exchange and the world as it changed them up to that point.
\<close>

type_synonym 'ls handler = "exchange \<Rightarrow> 'ls world \<Rightarrow> exn option \<times> exchange \<times> 'ls world"

definition default_config :: MiddlewareConfig where
  "default_config = \<lparr>autoOptimize = None, paths = None\<rparr>"

definition createOptimizerMiddleware ::
  "MiddlewareConfig option \<Rightarrow> 'ls world \<Rightarrow> 'ls handler \<times> 'ls world" where
  "createOptimizerMiddleware config_arg w =
     (let config = (case config_arg of None \<Rightarrow> default_config | Some c \<Rightarrow> c) in
      case createOptimizer (case autoOptimize config of None \<Rightarrow> False | Some b \<Rightarrow> b) w of
        (optimizer, w') \<Rightarrow>
          (\<lambda>x v. (None,
                   x\<lparr>req := (req x)\<lparr>workflowOptimizer := Some optimizer\<rparr>,
                     nextCalls := Suc (nextCalls x)\<rparr>,
                   v),
           w'))"

definition createAnalyzeHandler ::
  "'ls optimizer_library \<Rightarrow> AgentChainOptimizer \<Rightarrow> 'ls handler" where
  "createAnalyzeHandler lib optimizer = (\<lambda>x w.
     case destructure (body (req x)) ''workflowId'' of
       Inl e \<Rightarrow> (Some e, x, w)
     | Inr workflowId \<Rightarrow>
         if \<not> truthy workflowId
         then (None, res_json (error_body ''workflowId is required'') (res_status 400 x), w)
         else (case call_analyzeWorkflow lib optimizer workflowId w of
                 (Inl e, w') \<Rightarrow> (Some e, x, w')
               | (Inr analysis, w') \<Rightarrow>
                   (None,
                    res_json analysis (x\<lparr>req := (req x)\<lparr>workflowAnalysis := Some analysis\<rparr>\<rparr>),
                    w')))"

definition createOptimizeHandler ::
  "'ls optimizer_library \<Rightarrow> AgentChainOptimizer \<Rightarrow> 'ls handler" where
  "createOptimizeHandler lib optimizer = (\<lambda>x w.
     case destructure (body (req x)) ''workflow'' of
       Inl e \<Rightarrow> (Some e, x, w)
     | Inr workflow \<Rightarrow>
         if \<not> truthy workflow
         then (None, res_json (error_body ''workflow is required'') (res_status 400 x), w)
         else (case call_optimizeWorkflow lib optimizer workflow w of
                 (Inl e, w') \<Rightarrow> (Some e, x, w')
               | (Inr result, w') \<Rightarrow> (None, res_json result x, w')))"

definition createMetricsHandler ::
  "'ls optimizer_library \<Rightarrow> AgentChainOptimizer \<Rightarrow> 'ls handler" where
  "createMetricsHandler lib optimizer = (\<lambda>x w.
     case call_getAggregatedMetrics lib optimizer w of
       (Inl e, w') \<Rightarrow> (Some e, x, w')
     | (Inr metrics_value, w') \<Rightarrow> (None, res_json metrics_value x, w'))"

text \<open>
  \<open>req.params\<close> is always an object; a missing parameter reads as undefined. An execution's
  \<open>id\<close> is a string, so \<open>e.id === executionId\<close> holds exactly when \<open>executionId\<close> is that
  string. \<open>Array.prototype.find\<close> returns the first match or undefined; an execution record is
  an object, hence truthy, so \<open>!execution\<close> holds exactly when nothing was found.
\<close>

definition createCriticalPathHandler ::
  "'ls optimizer_library \<Rightarrow> AgentChainOptimizer \<Rightarrow> 'ls handler" where
  "createCriticalPathHandler lib optimizer = (\<lambda>x w.
     let executionId = (case map_of (params (req x)) ''executionId'' of
                          None \<Rightarrow> JUndefined | Some v \<Rightarrow> v) in
     if \<not> truthy executionId
     then (None, res_json (error_body ''executionId is required'') (res_status 400 x), w)
     else (case call_getWorkflowExecutions lib optimizer w of
             (Inl e, w1) \<Rightarrow> (Some e, x, w1)
           | (Inr executions, w1) \<Rightarrow>
               (case find (\<lambda>e. JStr (exec_id e) = executionId) executions of
                  None \<Rightarrow>
                    (None, res_json (error_body ''Execution not found'') (res_status 404 x), w1)
                | Some execution \<Rightarrow>
                    (case call_analyzeExecutionCriticalPath lib optimizer execution w1 of
                       (Inl e, w2) \<Rightarrow> (Some e, x, w2)
                     | (Inr critical_path, w2) \<Rightarrow> (None, res_json critical_path x, w2)))))"

section \<open>Route table and app factory\<close>

record 'ls route =
  route_method :: string
  handler :: "'ls handler"

definition setupOptimizerRoutes ::
  "'ls optimizer_library \<Rightarrow> AgentChainOptimizer \<Rightarrow> string option \<Rightarrow> (string \<times> 'ls route) list" where
  "setupOptimizerRoutes lib optimizer basePath_arg =
     (let basePath = (case basePath_arg of None \<Rightarrow> ''/api/optimizer'' | Some b \<Rightarrow> b) in
      object_literal
        [(basePath @ ''/analyze'',
            \<lparr>route_method = ''post'', handler = createAnalyzeHandler lib optimizer\<rparr>),
         (basePath @ ''/optimize'',
            \<lparr>route_method = ''post'', handler = createOptimizeHandler lib optimizer\<rparr>),
         (basePath @ ''/metrics'',
            \<lparr>route_method = ''get'', handler = createMetricsHandler lib optimizer\<rparr>),
         (basePath @ ''/critical-path/:executionId'',
            \<lparr>route_method = ''get'', handler = createCriticalPathHandler lib optimizer\<rparr>)])"

text \<open>
  The base path the factory hands to the route table builder:
  \<open>config.paths?.analyze?.replace('/analyze', '') || '/api/optimizer'\<close>. Optional chaining
  yields undefined when \<open>paths\<close> or \<open>analyze\<close> is missing; \<open>||\<close> takes the default for
  undefined and for the empty string.
\<close>

definition appBasePath :: "MiddlewareConfig \<Rightarrow> string" where
  "appBasePath config =
     (case map_option (\<lambda>a. replace_str a ''/analyze'' '''') (Option.bind (paths config) analyze) of
        None \<Rightarrow> ''/api/optimizer''
      | Some b \<Rightarrow> if b = [] then ''/api/optimizer'' else b)"

record 'ls OptimizerApp =
  app_optimizer :: AgentChainOptimizer
  app_middleware :: "'ls handler"
  app_routes :: "(string \<times> 'ls route) list"

definition createOptimizerApp ::
  "'ls optimizer_library \<Rightarrow> MiddlewareConfig option \<Rightarrow> 'ls world \<Rightarrow> 'ls OptimizerApp \<times> 'ls world" where
  "createOptimizerApp lib config_arg w =
     (let config = (case config_arg of None \<Rightarrow> default_config | Some c \<Rightarrow> c) in
      case createOptimizer (case autoOptimize config of None \<Rightarrow> True | Some b \<Rightarrow> b) w of
        (optimizer, w1) \<Rightarrow>
          (case createOptimizerMiddleware (Some config) w1 of
             (mw, w2) \<Rightarrow>
               (\<lparr>app_optimizer = optimizer,
                 app_middleware = mw,
                 app_routes = setupOptimizerRoutes lib optimizer (Some (appBasePath config))\<rparr>,
                w2)))"

text \<open>
  The specification's wording of the factory's base path: the default when no override is given,
  otherwise the override with a trailing \<open>/analyze\<close> stripped.
\<close>

definition spec_basePath :: "MiddlewareConfig \<Rightarrow> string" where
  "spec_basePath config =
     (case Option.bind (paths config) analyze of
        None \<Rightarrow> ''/api/optimizer''
      | Some a \<Rightarrow> strip_trailing a ''/analyze'')"

section \<open>Concrete inputs\<close>

text \<open>A new exchange: the request as parsed, status code 200, nothing sent, \<open>next\<close> not called.\<close>

definition new_exchange :: "jsval \<Rightarrow> (string \<times> jsval) list \<Rightarrow> exchange" where
  "new_exchange b ps =
     \<lparr>req = \<lparr>body = b, params = ps, workflowOptimizer = None, workflowAnalysis = None,
             req_criticalPath = None\<rparr>,
      res = \<lparr>statusCode = 200, jsonBody = None\<rparr>,
      nextCalls = 0\<rparr>"

definition config_with_analyze :: "string \<Rightarrow> MiddlewareConfig" where
  "config_with_analyze a =
     \<lparr>autoOptimize = None,
      paths = Some \<lparr>analyze = Some a, optimize = None, metrics = None, criticalPath = None\<rparr>\<rparr>"

text \<open>A library with two recorded executions, \<open>e1\<close> and \<open>e2\<close>, whose operations never throw.\<close>

definition sample_library :: "unit optimizer_library" where
  "sample_library =
     \<lparr>analyzeWorkflow = (\<lambda>opt wid s. (Inr (JObj [(''analysisOf'', wid)]), s)),
      optimizeWorkflow = (\<lambda>opt wf s. (Inr (JObj [(''optimized'', wf)]), s)),
      getAggregatedMetrics = (\<lambda>opt s. (Inr (JObj [(''count'', JNum (Finite 2))]), s)),
      getWorkflowExecutions =
        (\<lambda>opt s. (Inr [\<lparr>exec_id = ''e1'', exec_data = JNull\<rparr>,
                        \<lparr>exec_id = ''e2'', exec_data = JBool True\<rparr>], s)),
      analyzeExecutionCriticalPath =
        (\<lambda>opt e s. (Inr (JObj [(''pathOf'', JStr (exec_id e))]), s))\<rparr>"

definition sample_world :: "unit world" where
  "sample_world = \<lparr>lib_state = (), next_ref = 0, trace = []\<rparr>"

definition sample_optimizer :: AgentChainOptimizer where
  "sample_optimizer = \<lparr>opt_ref = 0, opt_autoOptimize = True\<rparr>"

section \<open>String replacement\<close>

lemma startsWith_iff: "startsWith s p \<longleftrightarrow> take (length p) s = p"
  by (induction s p rule: startsWith.induct) auto

lemma startsWith_append: "startsWith (p @ v) p"
  by (simp add: startsWith_iff)

lemma occurs_Nil: "occurs [] s"
  by (cases s) auto

lemma occurs_iff: "occurs pat s \<longleftrightarrow> (\<exists>u v. s = u @ pat @ v)"
proof (induction s)
  case Nil
  then show ?case by auto
next
  case (Cons c cs)
  show ?case
  proof
    assume "occurs pat (c # cs)"
    then consider "startsWith (c # cs) pat" | "occurs pat cs" by auto
    then show "\<exists>u v. c # cs = u @ pat @ v"
    proof cases
      case 1
      then have "c # cs = [] @ pat @ drop (length pat) (c # cs)"
        by (metis append_Nil append_take_drop_id startsWith_iff)
      then show ?thesis by blast
    next
      case 2
      with Cons.IH obtain u v where "cs = u @ pat @ v" by blast
      then have "c # cs = (c # u) @ pat @ v" by simp
      then show ?thesis by blast
    qed
  next
    assume "\<exists>u v. c # cs = u @ pat @ v"
    then obtain u v where uv: "c # cs = u @ pat @ v" by blast
    show "occurs pat (c # cs)"
    proof (cases u)
      case Nil
      with uv have "startsWith (c # cs) pat" by (simp add: startsWith_iff)
      then show ?thesis by simp
    next
      case (Cons d u')
      with uv have "cs = u' @ pat @ v" by simp
      with Cons.IH have "occurs pat cs" by blast
      then show ?thesis by simp
    qed
  qed
qed

lemma replace_str_absent: "\<not> occurs pat s \<Longrightarrow> replace_str s pat rep = s"
  by (induction s) auto

text \<open>The occurrence that is replaced is the leftmost one.\<close>

lemma replace_str_first:
  "\<not> occurs pat (u @ butlast pat) \<Longrightarrow> replace_str (u @ pat @ v) pat rep = u @ rep @ v"
proof (induction u)
  case Nil
  then have "pat \<noteq> []" using occurs_Nil by blast
  then obtain c cs where "pat @ v = c # cs" by (cases pat) auto
  moreover have "startsWith (pat @ v) pat" by (rule startsWith_append)
  ultimately show ?case by (metis append_Nil append_eq_conv_conj replace_str.simps(2))
next
  case (Cons c u)
  from Cons.prems have ne: "pat \<noteq> []" using occurs_Nil by blast
  from Cons.prems have a: "\<not> startsWith (c # u @ butlast pat) pat"
    and b: "\<not> occurs pat (u @ butlast pat)" by auto
  from ne have len: "length pat \<le> length (c # u @ butlast pat)" by simp
  from ne have "pat = butlast pat @ [last pat]" by simp
  then have "c # u @ pat @ v = (c # u @ butlast pat) @ ([last pat] @ v)"
    by (metis append.assoc append_Cons)
  then have "take (length pat) (c # u @ pat @ v) = take (length pat) (c # u @ butlast pat)"
    using len by (metis append_Nil2 diff_is_0_eq take_0 take_append)
  with a have "\<not> startsWith (c # u @ pat @ v) pat"
    by (simp add: startsWith_iff)
  with Cons.IH [OF b] show ?case by simp
qed

lemma endsWith_iff: "endsWith s suf \<longleftrightarrow> (\<exists>u. s = u @ suf)"
proof -
  have "endsWith s suf \<longleftrightarrow> take (length suf) (rev s) = rev suf"
    by (simp add: endsWith_def startsWith_iff)
  also have "\<dots> \<longleftrightarrow> (\<exists>u. rev s = rev suf @ u)"
    by (metis append_eq_conv_conj length_rev)
  also have "\<dots> \<longleftrightarrow> (\<exists>u. s = u @ suf)"
    by (metis rev_append rev_rev_ident)
  finally show ?thesis .
qed

text \<open>
  Where the pattern occurs nowhere but, possibly, at the very end, replacing its first
  occurrence by the empty string is stripping the trailing suffix.
\<close>

lemma replace_str_trailing:
  assumes "\<not> occurs pat (butlast s)"
  shows "replace_str s pat [] = strip_trailing s pat"
proof (cases "endsWith s pat")
  case True
  then obtain u where u: "s = u @ pat" by (auto simp: endsWith_iff)
  from assms have ne: "pat \<noteq> []" using occurs_Nil by blast
  with u assms have "\<not> occurs pat (u @ butlast pat)" by (simp add: butlast_append)
  then have "replace_str (u @ pat @ []) pat [] = u @ [] @ []" by (rule replace_str_first)
  with u True show ?thesis by (simp add: strip_trailing_def)
next
  case False
  have "\<not> occurs pat s"
  proof
    assume "occurs pat s"
    then obtain u v where uv: "s = u @ pat @ v" by (auto simp: occurs_iff)
    show False
    proof (cases "v = []")
      case True
      with uv False show False by (auto simp: endsWith_iff)
    next
      case nv: False
      with uv have "butlast s = u @ pat @ butlast v" by (simp add: butlast_append)
      with assms show False by (auto simp: occurs_iff)
    qed
  qed
  with False show ?thesis by (simp add: replace_str_absent strip_trailing_def)
qed

section \<open>Auxiliary facts about the handlers and the factory\<close>

lemma find_unique_match: "filter P xs = [e] \<Longrightarrow> find P xs = Some e"
  by (induction xs) (auto split: if_splits)

lemma object_literal_distinct4:
  assumes "distinct [k1, k2, k3, k4]"
  shows "object_literal [(k1, v1), (k2, v2), (k3, v3), (k4, v4)] =
           [(k1, v1), (k2, v2), (k3, v3), (k4, v4)]"
  using assms by (auto simp: object_literal_def)

lemma absent_field_undefined:
  assumes "b \<noteq> JUndefined" and "b \<noteq> JNull" and "\<not> has_field b k"
  shows "destructure b k = Inr JUndefined"
  using assms by (cases b) auto

text \<open>A request without a parsed body makes the destructuring throw; nothing is sent.\<close>

lemma analyze_without_body:
  "body (req x) = JUndefined \<Longrightarrow> createAnalyzeHandler lib optimizer x w = (Some TypeError, x, w)"
  by (simp add: createAnalyzeHandler_def)

text \<open>Whatever the library's analysis does, a truthy identifier is passed to it exactly once.\<close>

lemma analyze_invokes_library:
  assumes "body (req x) = JObj ps" and "map_of ps ''workflowId'' = Some workflowId"
    and "truthy workflowId"
  shows "trace (snd (snd (createAnalyzeHandler lib optimizer x w))) =
           trace w @ [AnalyzeWorkflow optimizer workflowId]"
  using assms
  by (simp add: createAnalyzeHandler_def call_analyzeWorkflow_def
      split: prod.splits sum.splits)

lemma optimize_missing_workflow:
  assumes "body (req x) \<noteq> JUndefined" and "body (req x) \<noteq> JNull"
    and "\<not> has_field (body (req x)) ''workflow''"
  shows "createOptimizeHandler lib optimizer x w =
           (None,
            x\<lparr>res := (res x)\<lparr>statusCode := 400,
                 jsonBody := Some (JObj [(''error'', JStr ''workflow is required'')])\<rparr>\<rparr>,
            w)"
  using absent_field_undefined [OF assms]
  by (simp add: createOptimizeHandler_def res_json_def res_status_def error_body_def)

lemma criticalPath_missing_executionId:
  assumes "map_of (params (req x)) ''executionId'' = None"
  shows "createCriticalPathHandler lib optimizer x w =
           (None,
            x\<lparr>res := (res x)\<lparr>statusCode := 400,
                 jsonBody := Some (JObj [(''error'', JStr ''executionId is required'')])\<rparr>\<rparr>,
            w)"
  using assms
  by (simp add: createCriticalPathHandler_def res_json_def res_status_def error_body_def)

lemma metrics_passthrough:
  assumes "getAggregatedMetrics lib optimizer (lib_state w) = (Inr m, s')"
  shows "createMetricsHandler lib optimizer x w =
           (None, x\<lparr>res := (res x)\<lparr>jsonBody := Some m\<rparr>\<rparr>,
            w\<lparr>lib_state := s', trace := trace w @ [GetAggregatedMetrics optimizer]\<rparr>)"
  using assms by (simp add: createMetricsHandler_def call_getAggregatedMetrics_def res_json_def)

lemma createOptimizerApp_routes:
  "app_routes (fst (createOptimizerApp lib config_arg w)) =
     setupOptimizerRoutes lib (app_optimizer (fst (createOptimizerApp lib config_arg w)))
       (Some (appBasePath (case config_arg of None \<Rightarrow> default_config | Some c \<Rightarrow> c)))"
  by (simp add: createOptimizerApp_def createOptimizerMiddleware_def createOptimizer_def Let_def)

section \<open>The analyze handler\<close>

text \<open>
  A request whose body was never parsed (\<open>req.body\<close> undefined) or is null has no
  \<open>workflowId\<close> in its body, yet it is not answered with 400: the destructuring throws a
  TypeError before the presence check, and the response is left untouched, at status 200 with
  nothing sent.
\<close>

theorem analyze_missing_workflowId_counterexample:
  "\<not> has_field (body (req (new_exchange JUndefined []))) ''workflowId'' \<and>
   createAnalyzeHandler sample_library sample_optimizer (new_exchange JUndefined []) sample_world =
     (Some TypeError, new_exchange JUndefined [], sample_world) \<and>
   res (new_exchange JUndefined []) = \<lparr>statusCode = 200, jsonBody = None\<rparr> \<and>
   \<not> has_field (body (req (new_exchange JNull []))) ''workflowId'' \<and>
   createAnalyzeHandler sample_library sample_optimizer (new_exchange JNull []) sample_world =
     (Some TypeError, new_exchange JNull [], sample_world) \<and>
   res (new_exchange JNull []) = \<lparr>statusCode = 200, jsonBody = None\<rparr>"
  by (simp add: createAnalyzeHandler_def new_exchange_def)

text \<open>
  C3, as amended: for every request to the analyze handler whose body is neither undefined nor
  null and has no \<open>workflowId\<close> field, the response has status 400 and the body
  \<open>{error: "workflowId is required"}\<close>, and the world is left as it was: no call into the
  library is traced, so \<open>analyzeWorkflow\<close> is not invoked.
\<close>

theorem analyze_missing_workflowId:
  assumes "body (req x) \<noteq> JUndefined" and "body (req x) \<noteq> JNull"
    and "\<not> has_field (body (req x)) ''workflowId''"
  shows "createAnalyzeHandler lib optimizer x w =
           (None,
            x\<lparr>res := (res x)\<lparr>statusCode := 400,
                 jsonBody := Some (JObj [(''error'', JStr ''workflowId is required'')])\<rparr>\<rparr>,
            w)"
  using absent_field_undefined [OF assms]
  by (simp add: createAnalyzeHandler_def res_json_def res_status_def error_body_def)

theorem analyze_missing_workflowId_witness:
  "body (req (new_exchange (JObj [(''other'', JStr ''x'')]) [])) \<noteq> JUndefined \<and>
   body (req (new_exchange (JObj [(''other'', JStr ''x'')]) [])) \<noteq> JNull \<and>
   \<not> has_field (body (req (new_exchange (JObj [(''other'', JStr ''x'')]) []))) ''workflowId'' \<and>
   createAnalyzeHandler sample_library sample_optimizer
       (new_exchange (JObj [(''other'', JStr ''x'')]) []) sample_world =
     (None,
      new_exchange (JObj [(''other'', JStr ''x'')]) []
        \<lparr>res := \<lparr>statusCode = 400,
                  jsonBody = Some (JObj [(''error'', JStr ''workflowId is required'')])\<rparr>\<rparr>,
      sample_world)"
  using analyze_missing_workflowId [of "new_exchange (JObj [(''other'', JStr ''x'')]) []"
      sample_library sample_optimizer sample_world]
  by (simp add: new_exchange_def)

text \<open>
  C4: for every request to the analyze handler whose body contains a \<open>workflowId\<close> that passes
  the handler's presence check (such as \<open>"wf-1"\<close>), \<open>analyzeWorkflow\<close> is invoked with exactly
  that identifier; when it returns, its result is stored on the request as \<open>workflowAnalysis\<close>
  and sent, unmodified, as the JSON body with status 200.
\<close>

theorem analyze_present_workflowId:
  assumes "body (req x) = JObj ps" and "map_of ps ''workflowId'' = Some workflowId"
    and "truthy workflowId"
    and "analyzeWorkflow lib optimizer workflowId (lib_state w) = (Inr analysis, s')"
    and "statusCode (res x) = 200"
  shows "createAnalyzeHandler lib optimizer x w =
           (None,
            x\<lparr>req := (req x)\<lparr>workflowAnalysis := Some analysis\<rparr>,
              res := (res x)\<lparr>statusCode := 200, jsonBody := Some analysis\<rparr>\<rparr>,
            w\<lparr>lib_state := s', trace := trace w @ [AnalyzeWorkflow optimizer workflowId]\<rparr>)"
  using assms
  by (simp add: createAnalyzeHandler_def call_analyzeWorkflow_def res_json_def)

theorem analyze_present_workflowId_witness:
  "body (req (new_exchange (JObj [(''workflowId'', JStr ''wf-1'')]) [])) =
     JObj [(''workflowId'', JStr ''wf-1'')] \<and>
   map_of [(''workflowId'', JStr ''wf-1'')] ''workflowId'' = Some (JStr ''wf-1'') \<and>
   truthy (JStr ''wf-1'') \<and>
   analyzeWorkflow sample_library sample_optimizer (JStr ''wf-1'') (lib_state sample_world) =
     (Inr (JObj [(''analysisOf'', JStr ''wf-1'')]), ()) \<and>
   statusCode (res (new_exchange (JObj [(''workflowId'', JStr ''wf-1'')]) [])) = 200 \<and>
   createAnalyzeHandler sample_library sample_optimizer
       (new_exchange (JObj [(''workflowId'', JStr ''wf-1'')]) []) sample_world =
     (None,
      new_exchange (JObj [(''workflowId'', JStr ''wf-1'')]) []
        \<lparr>req := \<lparr>body = JObj [(''workflowId'', JStr ''wf-1'')], params = [],
                  workflowOptimizer = None,
                  workflowAnalysis = Some (JObj [(''analysisOf'', JStr ''wf-1'')]),
                  req_criticalPath = None\<rparr>,
          res := \<lparr>statusCode = 200, jsonBody = Some (JObj [(''analysisOf'', JStr ''wf-1'')])\<rparr>\<rparr>,
      \<lparr>lib_state = (), next_ref = 0, trace = [AnalyzeWorkflow sample_optimizer (JStr ''wf-1'')]\<rparr>)"
  using analyze_present_workflowId [of "new_exchange (JObj [(''workflowId'', JStr ''wf-1'')]) []"
      "[(''workflowId'', JStr ''wf-1'')]" "JStr ''wf-1''" sample_library sample_optimizer
      sample_world "JObj [(''analysisOf'', JStr ''wf-1'')]" "()"]
  by (simp add: new_exchange_def sample_library_def sample_world_def)

section \<open>The critical-path handler\<close>

text \<open>
  C5: for every request to the critical-path handler with an \<open>executionId\<close> that passes the
  presence check, if no execution in the telemetry collector's list has an id equal to it,
  the response has status 404 and the body \<open>{error: "Execution not found"}\<close>; the only call
  traced is the one fetching the executions, so \<open>analyzeExecutionCriticalPath\<close> is not invoked.
\<close>

theorem criticalPath_not_found:
  assumes "map_of (params (req x)) ''executionId'' = Some executionId"
    and "truthy executionId"
    and "getWorkflowExecutions lib optimizer (lib_state w) = (Inr executions, s')"
    and "\<forall>e \<in> set executions. JStr (exec_id e) \<noteq> executionId"
  shows "createCriticalPathHandler lib optimizer x w =
           (None,
            x\<lparr>res := (res x)\<lparr>statusCode := 404,
                 jsonBody := Some (JObj [(''error'', JStr ''Execution not found'')])\<rparr>\<rparr>,
            w\<lparr>lib_state := s', trace := trace w @ [GetWorkflowExecutions optimizer]\<rparr>)"
proof -
  from assms(4) have "find (\<lambda>e. JStr (exec_id e) = executionId) executions = None"
    by (simp add: find_None_iff)
  with assms(1-3) show ?thesis
    by (simp add: createCriticalPathHandler_def call_getWorkflowExecutions_def
        res_json_def res_status_def error_body_def)
qed

theorem criticalPath_not_found_witness:
  "map_of (params (req (new_exchange JUndefined [(''executionId'', JStr ''e9'')]))) ''executionId''
     = Some (JStr ''e9'') \<and>
   truthy (JStr ''e9'') \<and>
   getWorkflowExecutions sample_library sample_optimizer (lib_state sample_world) =
     (Inr [\<lparr>exec_id = ''e1'', exec_data = JNull\<rparr>, \<lparr>exec_id = ''e2'', exec_data = JBool True\<rparr>], ()) \<and>
   list_all (\<lambda>e. JStr (exec_id e) \<noteq> JStr ''e9'')
     [\<lparr>exec_id = ''e1'', exec_data = JNull\<rparr>, \<lparr>exec_id = ''e2'', exec_data = JBool True\<rparr>] \<and>
   createCriticalPathHandler sample_library sample_optimizer
       (new_exchange JUndefined [(''executionId'', JStr ''e9'')]) sample_world =
     (None,
      new_exchange JUndefined [(''executionId'', JStr ''e9'')]
        \<lparr>res := \<lparr>statusCode = 404,
                  jsonBody = Some (JObj [(''error'', JStr ''Execution not found'')])\<rparr>\<rparr>,
      \<lparr>lib_state = (), next_ref = 0, trace = [GetWorkflowExecutions sample_optimizer]\<rparr>)"
  using criticalPath_not_found [of "new_exchange JUndefined [(''executionId'', JStr ''e9'')]"
      "JStr ''e9''" sample_library sample_optimizer sample_world
      "[\<lparr>exec_id = ''e1'', exec_data = JNull\<rparr>, \<lparr>exec_id = ''e2'', exec_data = JBool True\<rparr>]" "()"]
  by (simp add: new_exchange_def sample_library_def sample_world_def)

text \<open>
  C6: for every request to the critical-path handler with an \<open>executionId\<close> that passes the
  presence check, if exactly one execution in the telemetry collector's list has an id equal
  to it, \<open>analyzeExecutionCriticalPath\<close> is invoked with that very record; when it returns,
  its result is sent as the JSON body with status 200.
\<close>

theorem criticalPath_found:
  assumes "map_of (params (req x)) ''executionId'' = Some executionId"
    and "truthy executionId"
    and "getWorkflowExecutions lib optimizer (lib_state w) = (Inr executions, s')"
    and "filter (\<lambda>e. JStr (exec_id e) = executionId) executions = [execution]"
    and "analyzeExecutionCriticalPath lib optimizer execution s' = (Inr critical_path, s'')"
    and "statusCode (res x) = 200"
  shows "createCriticalPathHandler lib optimizer x w =
           (None,
            x\<lparr>res := (res x)\<lparr>statusCode := 200, jsonBody := Some critical_path\<rparr>\<rparr>,
            w\<lparr>lib_state := s'',
              trace := trace w @ [GetWorkflowExecutions optimizer,
                                  AnalyzeExecutionCriticalPath optimizer execution]\<rparr>)"
proof -
  from assms(4) have "find (\<lambda>e. JStr (exec_id e) = executionId) executions = Some execution"
    by (rule find_unique_match)
  with assms(1-3,5,6) show ?thesis
    by (simp add: createCriticalPathHandler_def call_getWorkflowExecutions_def
        call_analyzeExecutionCriticalPath_def res_json_def)
qed

theorem criticalPath_found_witness:
  "map_of (params (req (new_exchange JUndefined [(''executionId'', JStr ''e2'')]))) ''executionId''
     = Some (JStr ''e2'') \<and>
   truthy (JStr ''e2'') \<and>
   getWorkflowExecutions sample_library sample_optimizer (lib_state sample_world) =
     (Inr [\<lparr>exec_id = ''e1'', exec_data = JNull\<rparr>, \<lparr>exec_id = ''e2'', exec_data = JBool True\<rparr>], ()) \<and>
   filter (\<lambda>e. JStr (exec_id e) = JStr ''e2'')
     [\<lparr>exec_id = ''e1'', exec_data = JNull\<rparr>, \<lparr>exec_id = ''e2'', exec_data = JBool True\<rparr>]
     = [\<lparr>exec_id = ''e2'', exec_data = JBool True\<rparr>] \<and>
   analyzeExecutionCriticalPath sample_library sample_optimizer
     \<lparr>exec_id = ''e2'', exec_data = JBool True\<rparr> () = (Inr (JObj [(''pathOf'', JStr ''e2'')]), ()) \<and>
   statusCode (res (new_exchange JUndefined [(''executionId'', JStr ''e2'')])) = 200 \<and>
   createCriticalPathHandler sample_library sample_optimizer
       (new_exchange JUndefined [(''executionId'', JStr ''e2'')]) sample_world =
     (None,
      new_exchange JUndefined [(''executionId'', JStr ''e2'')]
        \<lparr>res := \<lparr>statusCode = 200, jsonBody = Some (JObj [(''pathOf'', JStr ''e2'')])\<rparr>\<rparr>,
      \<lparr>lib_state = (), next_ref = 0,
        trace = [GetWorkflowExecutions sample_optimizer,
                 AnalyzeExecutionCriticalPath sample_optimizer
                   \<lparr>exec_id = ''e2'', exec_data = JBool True\<rparr>]\<rparr>)"
  using criticalPath_found [of "new_exchange JUndefined [(''executionId'', JStr ''e2'')]"
      "JStr ''e2''" sample_library sample_optimizer sample_world
      "[\<lparr>exec_id = ''e1'', exec_data = JNull\<rparr>, \<lparr>exec_id = ''e2'', exec_data = JBool True\<rparr>]" "()"
      "\<lparr>exec_id = ''e2'', exec_data = JBool True\<rparr>" "JObj [(''pathOf'', JStr ''e2'')]" "()"]
  by (simp add: new_exchange_def sample_library_def sample_world_def)

section \<open>Presence checks are falsiness checks\<close>

text \<open>
  C9: in the analyze, optimize and critical-path handlers, a \<open>workflowId\<close>, \<open>workflow\<close> or
  \<open>executionId\<close> that is present but falsy (the empty string, 0, false, null, ...) gets the
  same 400 response as an absent one, and the world is left as it was: no operation of the
  optimizer is invoked.
\<close>

theorem falsy_field_rejected:
  assumes "\<not> truthy v"
  shows "(body (req x) = JObj ps \<and> map_of ps ''workflowId'' = Some v \<longrightarrow>
            createAnalyzeHandler lib optimizer x w =
              (None,
               x\<lparr>res := (res x)\<lparr>statusCode := 400,
                    jsonBody := Some (JObj [(''error'', JStr ''workflowId is required'')])\<rparr>\<rparr>,
               w)) \<and>
         (body (req x) = JObj ps \<and> map_of ps ''workflow'' = Some v \<longrightarrow>
            createOptimizeHandler lib optimizer x w =
              (None,
               x\<lparr>res := (res x)\<lparr>statusCode := 400,
                    jsonBody := Some (JObj [(''error'', JStr ''workflow is required'')])\<rparr>\<rparr>,
               w)) \<and>
         (map_of (params (req x)) ''executionId'' = Some v \<longrightarrow>
            createCriticalPathHandler lib optimizer x w =
              (None,
               x\<lparr>res := (res x)\<lparr>statusCode := 400,
                    jsonBody := Some (JObj [(''error'', JStr ''executionId is required'')])\<rparr>\<rparr>,
               w))"
  using assms
  by (simp add: createAnalyzeHandler_def createOptimizeHandler_def createCriticalPathHandler_def
      res_json_def res_status_def error_body_def)

theorem falsy_field_rejected_witness:
  "\<not> truthy (JStr '''') \<and> \<not> truthy (JNum (Finite 0)) \<and> \<not> truthy (JBool False) \<and> \<not> truthy JNull \<and>
   createAnalyzeHandler sample_library sample_optimizer
       (new_exchange (JObj [(''workflowId'', JStr '''')]) []) sample_world =
     (None,
      new_exchange (JObj [(''workflowId'', JStr '''')]) []
        \<lparr>res := \<lparr>statusCode = 400,
                  jsonBody = Some (JObj [(''error'', JStr ''workflowId is required'')])\<rparr>\<rparr>,
      sample_world) \<and>
   createOptimizeHandler sample_library sample_optimizer
       (new_exchange (JObj [(''workflow'', JNull)]) []) sample_world =
     (None,
      new_exchange (JObj [(''workflow'', JNull)]) []
        \<lparr>res := \<lparr>statusCode = 400,
                  jsonBody = Some (JObj [(''error'', JStr ''workflow is required'')])\<rparr>\<rparr>,
      sample_world) \<and>
   createOptimizeHandler sample_library sample_optimizer
       (new_exchange (JObj [(''workflow'', JBool False)]) []) sample_world =
     (None,
      new_exchange (JObj [(''workflow'', JBool False)]) []
        \<lparr>res := \<lparr>statusCode = 400,
                  jsonBody = Some (JObj [(''error'', JStr ''workflow is required'')])\<rparr>\<rparr>,
      sample_world) \<and>
   createCriticalPathHandler sample_library sample_optimizer
       (new_exchange JUndefined [(''executionId'', JNum (Finite 0))]) sample_world =
     (None,
      new_exchange JUndefined [(''executionId'', JNum (Finite 0))]
        \<lparr>res := \<lparr>statusCode = 400,
                  jsonBody = Some (JObj [(''error'', JStr ''executionId is required'')])\<rparr>\<rparr>,
      sample_world)"
  using falsy_field_rejected [of "JStr ''''" "new_exchange (JObj [(''workflowId'', JStr '''')]) []"
      "[(''workflowId'', JStr '''')]" sample_library sample_optimizer sample_world]
    falsy_field_rejected [of JNull "new_exchange (JObj [(''workflow'', JNull)]) []"
      "[(''workflow'', JNull)]" sample_library sample_optimizer sample_world]
    falsy_field_rejected [of "JBool False" "new_exchange (JObj [(''workflow'', JBool False)]) []"
      "[(''workflow'', JBool False)]" sample_library sample_optimizer sample_world]
    falsy_field_rejected [of "JNum (Finite 0)"
      "new_exchange JUndefined [(''executionId'', JNum (Finite 0))]" "[]"
      sample_library sample_optimizer sample_world]
  by (simp add: new_exchange_def)

section \<open>The route table\<close>

text \<open>
  C7: the route table builder is a function of the optimizer and the base path alone (it takes
  no world and changes none). For every base path it returns exactly four entries, in this
  order: the analyze and optimize routes with method post, the metrics and critical-path routes
  with method get; for base path \<open>/custom\<close> their keys are \<open>/custom/analyze\<close>,
  \<open>/custom/optimize\<close>, \<open>/custom/metrics\<close> and \<open>/custom/critical-path/:executionId\<close>.
\<close>

theorem setupOptimizerRoutes_table:
  "setupOptimizerRoutes lib optimizer (Some basePath) =
     [(basePath @ ''/analyze'',
         \<lparr>route_method = ''post'', handler = createAnalyzeHandler lib optimizer\<rparr>),
      (basePath @ ''/optimize'',
         \<lparr>route_method = ''post'', handler = createOptimizeHandler lib optimizer\<rparr>),
      (basePath @ ''/metrics'',
         \<lparr>route_method = ''get'', handler = createMetricsHandler lib optimizer\<rparr>),
      (basePath @ ''/critical-path/:executionId'',
         \<lparr>route_method = ''get'', handler = createCriticalPathHandler lib optimizer\<rparr>)] \<and>
   map (\<lambda>(k, r). (k, route_method r)) (setupOptimizerRoutes lib optimizer (Some ''/custom'')) =
     [(''/custom/analyze'', ''post''), (''/custom/optimize'', ''post''),
      (''/custom/metrics'', ''get''), (''/custom/critical-path/:executionId'', ''get'')]"
  by (simp add: setupOptimizerRoutes_def object_literal_distinct4)

section \<open>The app factory\<close>

text \<open>
  The factory does not strip a trailing suffix: it removes the leftmost \<open>/analyze\<close>, and it
  takes the default when the result is empty. For the override \<open>/analyzer/analyze\<close> the route
  table is built on \<open>r/analyze\<close>, where stripping the trailing suffix gives \<open>/analyzer\<close>; for
  the override \<open>/analyze\<close> it is built on \<open>/api/optimizer\<close>, where stripping gives the empty
  string.
\<close>

theorem createOptimizerApp_basePath_counterexample:
  "map fst (app_routes (fst (createOptimizerApp sample_library
       (Some (config_with_analyze ''/analyzer/analyze'')) sample_world))) =
     [''r/analyze/analyze'', ''r/analyze/optimize'', ''r/analyze/metrics'',
      ''r/analyze/critical-path/:executionId''] \<and>
   appBasePath (config_with_analyze ''/analyzer/analyze'') = ''r/analyze'' \<and>
   spec_basePath (config_with_analyze ''/analyzer/analyze'') = ''/analyzer'' \<and>
   appBasePath (config_with_analyze ''/analyzer/analyze'')
     \<noteq> spec_basePath (config_with_analyze ''/analyzer/analyze'') \<and>
   appBasePath (config_with_analyze ''/analyze'') = ''/api/optimizer'' \<and>
   spec_basePath (config_with_analyze ''/analyze'') = '''' \<and>
   appBasePath (config_with_analyze ''/analyze'') \<noteq> spec_basePath (config_with_analyze ''/analyze'')"
  by (simp add: createOptimizerApp_routes appBasePath_def spec_basePath_def config_with_analyze_def
      strip_trailing_def endsWith_def setupOptimizerRoutes_def object_literal_def Let_def)

text \<open>
  C1, as amended: for every configuration passed to the app factory, the route table is built
  on the default base path \<open>/api/optimizer\<close> when no analyze-path override is given (also when
  no configuration is given at all); when an override is given in which \<open>/analyze\<close> occurs no
  earlier than as its trailing suffix, the base path is the override with a trailing
  \<open>/analyze\<close> stripped if present, or the default when that leaves the empty string.
\<close>

theorem createOptimizerApp_basePath:
  "app_routes (fst (createOptimizerApp lib None w)) =
     setupOptimizerRoutes lib (app_optimizer (fst (createOptimizerApp lib None w)))
       (Some ''/api/optimizer'') \<and>
   (Option.bind (paths config) analyze = None \<longrightarrow>
      app_routes (fst (createOptimizerApp lib (Some config) w)) =
        setupOptimizerRoutes lib (app_optimizer (fst (createOptimizerApp lib (Some config) w)))
          (Some ''/api/optimizer'')) \<and>
   (\<forall>a. Option.bind (paths config) analyze = Some a \<and> \<not> occurs ''/analyze'' (butlast a) \<longrightarrow>
      app_routes (fst (createOptimizerApp lib (Some config) w)) =
        setupOptimizerRoutes lib (app_optimizer (fst (createOptimizerApp lib (Some config) w)))
          (Some (if strip_trailing a ''/analyze'' = [] then ''/api/optimizer''
                 else strip_trailing a ''/analyze'')))"
  by (simp add: createOptimizerApp_routes appBasePath_def replace_str_trailing default_config_def)

theorem createOptimizerApp_basePath_witness:
  "Option.bind (paths default_config) analyze = None \<and>
   app_routes (fst (createOptimizerApp sample_library (Some default_config) sample_world)) =
     setupOptimizerRoutes sample_library
       (app_optimizer (fst (createOptimizerApp sample_library (Some default_config) sample_world)))
       (Some ''/api/optimizer'') \<and>
   Option.bind (paths (config_with_analyze ''/custom/analyze'')) analyze = Some ''/custom/analyze'' \<and>
   \<not> occurs ''/analyze'' (butlast ''/custom/analyze'') \<and>
   app_routes (fst (createOptimizerApp sample_library
       (Some (config_with_analyze ''/custom/analyze'')) sample_world)) =
     setupOptimizerRoutes sample_library
       (app_optimizer (fst (createOptimizerApp sample_library
          (Some (config_with_analyze ''/custom/analyze'')) sample_world)))
       (Some ''/custom'')"
  using createOptimizerApp_basePath [of sample_library sample_world default_config]
    createOptimizerApp_basePath [of sample_library sample_world
      "config_with_analyze ''/custom/analyze''"]
  by (simp add: default_config_def config_with_analyze_def strip_trailing_def endsWith_def)

text \<open>
  C10: when the analyze-path override is exactly \<open>/analyze\<close>, the replacement leaves the empty
  string, and the route table is built on the default base path \<open>/api/optimizer\<close>.
\<close>

theorem analyze_override_exact:
  "replace_str ''/analyze'' ''/analyze'' '''' = '''' \<and>
   appBasePath (config\<lparr>paths := Some (ps\<lparr>analyze := Some ''/analyze''\<rparr>)\<rparr>) = ''/api/optimizer'' \<and>
   map fst (app_routes (fst (createOptimizerApp lib
       (Some (config\<lparr>paths := Some (ps\<lparr>analyze := Some ''/analyze''\<rparr>)\<rparr>)) w))) =
     [''/api/optimizer/analyze'', ''/api/optimizer/optimize'', ''/api/optimizer/metrics'',
      ''/api/optimizer/critical-path/:executionId'']"
  by (simp add: createOptimizerApp_routes appBasePath_def setupOptimizerRoutes_def
      object_literal_def Let_def)

text \<open>
  C8: the bundle returned by the app factory involves two distinct optimizer handles. The
  factory calls the constructor twice; the handle of the first call is the bundle's
  \<open>optimizer\<close> and is the one bound into the four route handlers; the middleware of the bundle
  attaches to every request the handle of the second call, which is a different handle.
\<close>

theorem createOptimizerApp_two_handles:
  "(case createOptimizerApp lib config_arg w of
      (app, w') \<Rightarrow>
        (case app_middleware app x v of
           (out, x', v') \<Rightarrow>
             out = None \<and> v' = v \<and>
             (\<exists>h. workflowOptimizer (req x') = Some h \<and>
                  opt_ref h = Suc (next_ref w) \<and> h \<noteq> app_optimizer app)) \<and>
        opt_ref (app_optimizer app) = next_ref w \<and>
        map (handler \<circ> snd) (app_routes app) =
          [createAnalyzeHandler lib (app_optimizer app),
           createOptimizeHandler lib (app_optimizer app),
           createMetricsHandler lib (app_optimizer app),
           createCriticalPathHandler lib (app_optimizer app)] \<and>
        (\<exists>a b. trace w' = trace w @ [CreateOptimizer a, CreateOptimizer b]))"
  by (simp add: createOptimizerApp_def createOptimizerMiddleware_def createOptimizer_def Let_def
      setupOptimizerRoutes_def object_literal_def)

text \<open>
  Not every handle the factory constructs gets the default \<open>true\<close>: with the empty
  configuration the constructor is called with \<open>true\<close> and then with \<open>false\<close>, and the
  handle that the bundle's middleware attaches to a request is the one constructed with
  \<open>false\<close>.
\<close>

theorem autoOptimize_defaults_counterexample:
  "trace (snd (createOptimizerApp sample_library (Some default_config) sample_world)) =
     [CreateOptimizer True, CreateOptimizer False] \<and>
   workflowOptimizer (req (fst (snd
     (app_middleware (fst (createOptimizerApp sample_library (Some default_config) sample_world))
        (new_exchange (JObj []) []) sample_world)))) =
     Some \<lparr>opt_ref = 1, opt_autoOptimize = False\<rparr> \<and>
   app_optimizer (fst (createOptimizerApp sample_library (Some default_config) sample_world)) =
     \<lparr>opt_ref = 0, opt_autoOptimize = True\<rparr>"
  by (simp add: createOptimizerApp_def createOptimizerMiddleware_def createOptimizer_def Let_def
      default_config_def sample_world_def new_exchange_def)

text \<open>
  C2, as amended: with the auto-optimize flag omitted (or no configuration given at all), the
  standalone middleware constructs its handle with \<open>autoOptimize = false\<close>, and the app
  factory constructs the bundle's own
  handle with \<open>autoOptimize = true\<close>. The factory's second constructor call, made by the
  middleware it returns, passes \<open>false\<close>: the handle that this middleware attaches to a
  request is constructed with the middleware's default, not the factory's.
\<close>

theorem autoOptimize_defaults:
  "trace (snd (createOptimizerMiddleware None w)) = trace w @ [CreateOptimizer False] \<and>
   trace (snd (createOptimizerApp lib None w)) =
     trace w @ [CreateOptimizer True, CreateOptimizer False] \<and>
   opt_autoOptimize (app_optimizer (fst (createOptimizerApp lib None w))) = True \<and>
   map_option opt_autoOptimize
     (workflowOptimizer (req (fst (snd
        (app_middleware (fst (createOptimizerApp lib None w)) x v))))) = Some False \<and>
   trace (snd (createOptimizerMiddleware (Some (config\<lparr>autoOptimize := None\<rparr>)) w)) =
     trace w @ [CreateOptimizer False] \<and>
   trace (snd (createOptimizerApp lib (Some (config\<lparr>autoOptimize := None\<rparr>)) w)) =
     trace w @ [CreateOptimizer True, CreateOptimizer False] \<and>
   opt_autoOptimize (app_optimizer
       (fst (createOptimizerApp lib (Some (config\<lparr>autoOptimize := None\<rparr>)) w))) = True \<and>
   map_option opt_autoOptimize
     (workflowOptimizer (req (fst (snd
        (app_middleware (fst (createOptimizerApp lib (Some (config\<lparr>autoOptimize := None\<rparr>)) w))
           x v))))) = Some False"
  by (simp add: createOptimizerApp_def createOptimizerMiddleware_def createOptimizer_def Let_def
      default_config_def)

end
